theory Spec2Isabelle
  imports Complex_Main
begin

section \<open>Data model of Camera.tsx\<close>

text \<open>
  A JavaScript number is a \<^typ>\<open>real\<close> here: the camera code only copies numbers from
  one object to another and never computes with them. An optional property
  (\<^verbatim>\<open>x?: T\<close>, or a property that a JavaScript caller left out) is a \<^typ>\<open>'a option\<close>,
  with \<^term>\<open>None\<close> for \<^verbatim>\<open>undefined\<close>.
\<close>

type_synonym Position = "real list"

text \<open>\<^verbatim>\<open>type NativeAnimationMode = 'flight' | 'ease' | 'linear' | 'none' | 'move'\<close>\<close>

datatype NativeAnimationMode = flight | ease | linear | none | move

text \<open>\<^verbatim>\<open>interface NativeCameraStop\<close>: every property is optional.\<close>

record NativeCameraStop =
  centerCoordinate :: "string option"
  bounds :: "string option"
  heading :: "real option"
  pitch :: "real option"
  zoom :: "real option"
  paddingLeft :: "real option"
  paddingRight :: "real option"
  paddingTop :: "real option"
  paddingBottom :: "real option"
  duration :: "real option"
  mode :: "NativeAnimationMode option"

text \<open>
  \<^verbatim>\<open>interface CameraPadding\<close>. The interface declares the four sides as required, but
  the object comes from the caller and every read of a side in the component is
  followed by \<^verbatim>\<open>??\<close>, so a side that the caller left out is representable.
\<close>

record CameraPadding =
  paddingLeft :: "real option"
  paddingRight :: "real option"
  paddingTop :: "real option"
  paddingBottom :: "real option"

text \<open>
  \<^verbatim>\<open>interface CameraBoundsWithPadding extends CameraBounds, Partial<CameraPadding>\<close>.
  The corners are declared required; \<^verbatim>\<open>buildNativeStop\<close> tests them for presence, so
  they are optional here.
\<close>

record CameraBoundsWithPadding = CameraPadding +
  ne :: "Position option"
  sw :: "Position option"

text \<open>\<^verbatim>\<open>interface CameraStop\<close> (its \<^verbatim>\<open>type\<close> tag is part of the configuration below).\<close>

record CameraStop =
  centerCoordinate :: "Position option"
  bounds :: "CameraBoundsWithPadding option"
  heading :: "real option"
  pitch :: "real option"
  zoomLevel :: "real option"
  padding :: "CameraPadding option"
  animationDuration :: "real option"
  animationMode :: "string option"

text \<open>
  The argument of \<^verbatim>\<open>setCamera\<close>, \<^verbatim>\<open>CameraStop | CameraStops\<close>: an object with an
  optional \<^verbatim>\<open>type\<close> tag, an optional \<^verbatim>\<open>stops\<close> array and the properties of a stop.
\<close>

datatype ConfigType = CameraStop_tag | CameraStops_tag

record CameraConfig = CameraStop +
  type_tag :: "ConfigType option"
  stops :: "CameraStop list option"

text \<open>
  \<^verbatim>\<open>interface CameraProps\<close>, restricted to the properties that stop resolution reads:
  the declarative stop, \<^verbatim>\<open>followUserLocation\<close> and \<^verbatim>\<open>defaultSettings\<close>.
\<close>

record CameraProps = CameraStop +
  followUserLocation :: "bool option"
  defaultSettings :: "CameraStop option"

text \<open>
  The collaborators that are not part of the component: \<^verbatim>\<open>JSON.stringify\<close> on a
  position and on a bounds object, and \<^verbatim>\<open>JSON.stringify\<close> after
  \<^verbatim>\<open>geoUtils.makePoint\<close> and \<^verbatim>\<open>geoUtils.makeLatLngBounds\<close>. They are parameters of
  the model; nothing is assumed about them.
\<close>

record GeoUtils =
  stringifyPosition :: "Position \<Rightarrow> string"
  stringifyBounds :: "CameraBoundsWithPadding \<Rightarrow> string"
  makePoint :: "Position \<Rightarrow> string"
  makeLatLngBounds :: "Position \<Rightarrow> Position \<Rightarrow> string"

text \<open>What \<^verbatim>\<open>camera.current.setNativeProps\<close> receives: \<^verbatim>\<open>{stop: s}\<close> or \<^verbatim>\<open>{stop: {stops: ss}}\<close>.\<close>

datatype NativeProps =
  StopProp NativeCameraStop
| StopsProp "NativeCameraStop list"

datatype error = TypeError

section \<open>Animation modes\<close>

text \<open>\<^verbatim>\<open>const CameraModes\<close>\<close>

definition CameraModes_Flight :: string where "CameraModes_Flight = ''flyTo''"
definition CameraModes_Ease :: string where "CameraModes_Ease = ''easeTo''"
definition CameraModes_Linear :: string where "CameraModes_Linear = ''linearTo''"
definition CameraModes_Move :: string where "CameraModes_Move = ''moveTo''"
definition CameraModes_None :: string where "CameraModes_None = ''none''"

text \<open>
  Modelled from the spec: the constant table \<^verbatim>\<open>NativeModule.CameraModes\<close> of the native
  module, which is not part of the component's source. The specification gives the
  renderer-level tokens: flight, ease, linear and move.
\<close>

definition NativeCameraModes_Flight :: NativeAnimationMode where
  "NativeCameraModes_Flight = flight"
definition NativeCameraModes_Ease :: NativeAnimationMode where
  "NativeCameraModes_Ease = ease"
definition NativeCameraModes_Linear :: NativeAnimationMode where
  "NativeCameraModes_Linear = linear"
definition NativeCameraModes_Move :: NativeAnimationMode where
  "NativeCameraModes_Move = move"

text \<open>\<^verbatim>\<open>nativeAnimationMode\<close>: the \<^verbatim>\<open>switch\<close>, case by case, in the order of the source.\<close>

definition nativeAnimationMode :: "string option \<Rightarrow> NativeAnimationMode" where
  "nativeAnimationMode m =
     (if m = Some CameraModes_Flight then NativeCameraModes_Flight
      else if m = Some CameraModes_Ease then NativeCameraModes_Ease
      else if m = Some CameraModes_Linear then NativeCameraModes_Linear
      else if m = Some CameraModes_Move then NativeCameraModes_Move
      else if m = Some CameraModes_None then NativeCameraModes_Move
      else NativeCameraModes_Ease)"

section \<open>Stop resolution\<close>

text \<open>The operator \<^verbatim>\<open>a ?? b\<close> on optional values, and \<^verbatim>\<open>??\<close> with a final default.\<close>

definition nullish :: "'a option \<Rightarrow> 'a option \<Rightarrow> 'a option" where
  "nullish a b = (case a of Some x \<Rightarrow> Some x | None \<Rightarrow> b)"

definition orElse :: "'a option \<Rightarrow> 'a \<Rightarrow> 'a" where
  "orElse a d = (case a of Some x \<Rightarrow> x | None \<Rightarrow> d)"

text \<open>The object \<^verbatim>\<open>{}\<close> of type \<^verbatim>\<open>NativeCameraStop\<close>.\<close>

definition emptyNativeStop :: NativeCameraStop where
  "emptyNativeStop =
     \<lparr> NativeCameraStop.centerCoordinate = None, NativeCameraStop.bounds = None,
       NativeCameraStop.heading = None, NativeCameraStop.pitch = None, zoom = None,
       NativeCameraStop.paddingLeft = None, NativeCameraStop.paddingRight = None,
       NativeCameraStop.paddingTop = None, NativeCameraStop.paddingBottom = None,
       duration = None, mode = None \<rparr>"

text \<open>
  \<^verbatim>\<open>nativeDefaultStop\<close>: \<^verbatim>\<open>null\<close> without \<^verbatim>\<open>defaultSettings\<close>. \<^verbatim>\<open>JSON.stringify(undefined)\<close>
  is \<^verbatim>\<open>undefined\<close>, so an absent centre or bounds stays absent.
\<close>

definition nativeDefaultStop :: "GeoUtils \<Rightarrow> 'a CameraProps_scheme \<Rightarrow> NativeCameraStop option" where
  "nativeDefaultStop g props =
     (case defaultSettings props of
        None \<Rightarrow> None
      | Some ds \<Rightarrow> Some
          \<lparr> NativeCameraStop.centerCoordinate = map_option (stringifyPosition g) (centerCoordinate ds),
            NativeCameraStop.bounds = map_option (stringifyBounds g) (bounds ds),
            NativeCameraStop.heading = Some (orElse (heading ds) 0),
            NativeCameraStop.pitch = Some (orElse (pitch ds) 0),
            zoom = Some (orElse (zoomLevel ds) 11),
            NativeCameraStop.paddingLeft = Some (orElse (Option.bind (padding ds) paddingLeft) 0),
            NativeCameraStop.paddingRight = Some (orElse (Option.bind (padding ds) paddingRight) 0),
            NativeCameraStop.paddingTop = Some (orElse (Option.bind (padding ds) paddingTop) 0),
            NativeCameraStop.paddingBottom = Some (orElse (Option.bind (padding ds) paddingBottom) 0),
            duration = Some (orElse (animationDuration ds) 2000),
            mode = Some (nativeAnimationMode (animationMode ds)) \<rparr>)"

text \<open>The object spread \<^verbatim>\<open>{ ...x }\<close> of a stop that may be \<^verbatim>\<open>null\<close>.\<close>

definition spread :: "NativeCameraStop option \<Rightarrow> NativeCameraStop" where
  "spread x = (case x of None \<Rightarrow> emptyNativeStop | Some d \<Rightarrow> d)"

text \<open>
  \<^verbatim>\<open>buildNativeStop\<close>. The first statement of the source, which adds the tag
  \<^verbatim>\<open>type: 'CameraStop'\<close> to a copy of the stop, changes no property that is read later.
  The parameter \<^verbatim>\<open>ignoreFollowUserLocation\<close> has the default \<^verbatim>\<open>false\<close>; every call in
  the component leaves it out. Positions and objects are truthy whenever they are present.
\<close>

definition buildNativeStop ::
  "GeoUtils \<Rightarrow> 'p CameraProps_scheme \<Rightarrow> 'a CameraStop_scheme \<Rightarrow> bool \<Rightarrow> NativeCameraStop option" where
  "buildNativeStop g props stop ignoreFollowUserLocation =
     (if followUserLocation props = Some True \<and> \<not> ignoreFollowUserLocation then None
      else
        let s0 = spread (nativeDefaultStop g props);
            s1 = (case pitch stop of None \<Rightarrow> s0
                  | Some v \<Rightarrow> s0\<lparr>NativeCameraStop.pitch := Some v\<rparr>);
            s2 = (case heading stop of None \<Rightarrow> s1
                  | Some v \<Rightarrow> s1\<lparr>NativeCameraStop.heading := Some v\<rparr>);
            s3 = (case zoomLevel stop of None \<Rightarrow> s2
                  | Some v \<Rightarrow> s2\<lparr>zoom := Some v\<rparr>);
            s4 = (case animationMode stop of None \<Rightarrow> s3
                  | Some m \<Rightarrow> s3\<lparr>mode := Some (nativeAnimationMode (Some m))\<rparr>);
            s5 = (case animationDuration stop of None \<Rightarrow> s4
                  | Some v \<Rightarrow> s4\<lparr>duration := Some v\<rparr>);
            s6 = (case centerCoordinate stop of None \<Rightarrow> s5
                  | Some c \<Rightarrow> s5\<lparr>NativeCameraStop.centerCoordinate := Some (makePoint g c)\<rparr>);
            s7 = (case bounds stop of None \<Rightarrow> s6
                  | Some b \<Rightarrow>
                      (case ne b of None \<Rightarrow> s6
                       | Some n \<Rightarrow>
                           (case sw b of None \<Rightarrow> s6
                            | Some s \<Rightarrow>
                                s6\<lparr>NativeCameraStop.bounds := Some (makeLatLngBounds g n s)\<rparr>)))
        in Some (s7
          \<lparr> NativeCameraStop.paddingTop :=
              Some (orElse (nullish (Option.bind (padding stop) paddingTop)
                                    (Option.bind (bounds stop) paddingTop)) 0),
            NativeCameraStop.paddingRight :=
              Some (orElse (nullish (Option.bind (padding stop) paddingRight)
                                    (Option.bind (bounds stop) paddingRight)) 0),
            NativeCameraStop.paddingBottom :=
              Some (orElse (nullish (Option.bind (padding stop) paddingBottom)
                                    (Option.bind (bounds stop) paddingBottom)) 0),
            NativeCameraStop.paddingLeft :=
              Some (orElse (nullish (Option.bind (padding stop) paddingLeft)
                                    (Option.bind (bounds stop) paddingLeft)) 0) \<rparr>))"

text \<open>The memoised \<^verbatim>\<open>nativeStop\<close>: the declarative stop of the props, resolved.\<close>

definition nativeStop :: "GeoUtils \<Rightarrow> 'p CameraProps_scheme \<Rightarrow> NativeCameraStop option" where
  "nativeStop g props = buildNativeStop g props props False"

section \<open>The imperative handle\<close>

text \<open>
  \<^verbatim>\<open>setCamera\<close> returns the calls of \<^verbatim>\<open>camera.current.setNativeProps\<close> it made, in
  order (the native reference is taken to be attached). The loop over
  \<^verbatim>\<open>config.stops\<close>: \<^verbatim>\<open>_nativeStops\<close> is declared inside the loop body, and the call of
  \<^verbatim>\<open>setNativeProps\<close> is the last statement of the body.
\<close>

fun dispatchStops :: "GeoUtils \<Rightarrow> 'p CameraProps_scheme \<Rightarrow> CameraStop list \<Rightarrow> NativeProps list" where
  "dispatchStops g props [] = []"
| "dispatchStops g props (stop # rest) =
     (let nativeStops0 = [];
          nativeStops = (case buildNativeStop g props stop False of
                           Some n \<Rightarrow> nativeStops0 @ [n]
                         | None \<Rightarrow> nativeStops0)
      in StopsProp nativeStops # dispatchStops g props rest)"

text \<open>The inference of a missing \<^verbatim>\<open>type\<close> tag at the head of \<^verbatim>\<open>_setCamera\<close>.\<close>

definition inferType :: "CameraConfig \<Rightarrow> CameraConfig" where
  "inferType config =
     (case type_tag config of
        None \<Rightarrow> config\<lparr>type_tag :=
                  Some (if stops config \<noteq> None then CameraStops_tag else CameraStop_tag)\<rparr>
      | Some t \<Rightarrow> config)"

text \<open>
  \<^verbatim>\<open>_setCamera\<close>. Iterating over a \<^verbatim>\<open>stops\<close> property that is absent raises a
  \<^verbatim>\<open>TypeError\<close> before any call is made.
\<close>

definition setCamera :: "GeoUtils \<Rightarrow> 'p CameraProps_scheme \<Rightarrow> CameraConfig \<Rightarrow> error + NativeProps list" where
  "setCamera g props config0 =
     (let config = inferType config0 in
      if type_tag config = Some CameraStops_tag then
        (case stops config of
           None \<Rightarrow> Inl TypeError
         | Some ss \<Rightarrow> Inr (dispatchStops g props ss))
      else if type_tag config = Some CameraStop_tag then
        (case buildNativeStop g props config False of
           Some n \<Rightarrow> Inr [StopProp n]
         | None \<Rightarrow> Inr [])
      else Inr [])"

text \<open>The object \<^verbatim>\<open>{}\<close> as a stop and as a configuration.\<close>

definition emptyStop :: CameraStop where
  "emptyStop =
     \<lparr> centerCoordinate = None, bounds = None, heading = None, pitch = None,
       zoomLevel = None, padding = None, animationDuration = None, animationMode = None \<rparr>"

definition emptyConfig :: CameraConfig where
  "emptyConfig =
     \<lparr> centerCoordinate = None, bounds = None, heading = None, pitch = None,
       zoomLevel = None, padding = None, animationDuration = None, animationMode = None,
       type_tag = None, stops = None \<rparr>"

text \<open>The second argument of \<^verbatim>\<open>fitBounds\<close>, \<^verbatim>\<open>number | number[]\<close>.\<close>

datatype PaddingConfig = PaddingNumber real | PaddingArray "real list"

text \<open>
  The padding that \<^verbatim>\<open>_fitBounds\<close> computes from \<^verbatim>\<open>paddingConfig\<close> (default \<^verbatim>\<open>0\<close>) before it
  calls \<^verbatim>\<open>setCamera\<close>. An array has \<^verbatim>\<open>typeof\<close> \<^verbatim>\<open>'object'\<close>; its elements are read only
  under the length tests.
\<close>

definition fitBounds_padding :: "PaddingConfig option \<Rightarrow> CameraPadding" where
  "fitBounds_padding paddingConfig0 =
     (let paddingConfig = orElse paddingConfig0 (PaddingNumber 0);
          padding0 = \<lparr> paddingLeft = Some 0, paddingRight = Some 0,
                       paddingTop = Some 0, paddingBottom = Some 0 \<rparr>
      in case paddingConfig of
           PaddingArray xs \<Rightarrow>
             if length xs = 2 then
               \<lparr> paddingLeft = Some (xs ! 1), paddingRight = Some (xs ! 1),
                 paddingTop = Some (xs ! 0), paddingBottom = Some (xs ! 0) \<rparr>
             else if length xs = 4 then
               \<lparr> paddingLeft = Some (xs ! 3), paddingRight = Some (xs ! 1),
                 paddingTop = Some (xs ! 0), paddingBottom = Some (xs ! 2) \<rparr>
             else padding0
         | PaddingNumber n \<Rightarrow>
             \<lparr> paddingLeft = Some n, paddingRight = Some n,
               paddingTop = Some n, paddingBottom = Some n \<rparr>)"

text \<open>The configurations that the five operations hand to \<^verbatim>\<open>setCamera\<close>.\<close>

definition fitBounds_config ::
  "Position \<Rightarrow> Position \<Rightarrow> PaddingConfig option \<Rightarrow> real option \<Rightarrow> CameraConfig" where
  "fitBounds_config ne0 sw0 paddingConfig animationDuration0 =
     emptyConfig
       \<lparr> type_tag := Some CameraStop_tag,
         bounds := Some \<lparr> paddingLeft = None, paddingRight = None, paddingTop = None,
                          paddingBottom = None, ne = Some ne0, sw = Some sw0 \<rparr>,
         padding := Some (fitBounds_padding paddingConfig),
         animationDuration := Some (orElse animationDuration0 0),
         animationMode := Some ''easeTo'' \<rparr>"

definition flyTo_config :: "Position \<Rightarrow> real option \<Rightarrow> CameraConfig" where
  "flyTo_config c animationDuration0 =
     emptyConfig
       \<lparr> type_tag := Some CameraStop_tag,
         centerCoordinate := Some c,
         animationDuration := Some (orElse animationDuration0 2000) \<rparr>"

definition moveTo_config :: "Position \<Rightarrow> real option \<Rightarrow> CameraConfig" where
  "moveTo_config c animationDuration0 =
     emptyConfig
       \<lparr> type_tag := Some CameraStop_tag,
         centerCoordinate := Some c,
         animationDuration := Some (orElse animationDuration0 0),
         animationMode := Some ''easeTo'' \<rparr>"

definition zoomTo_config :: "real \<Rightarrow> real option \<Rightarrow> CameraConfig" where
  "zoomTo_config z animationDuration0 =
     emptyConfig
       \<lparr> type_tag := Some CameraStop_tag,
         zoomLevel := Some z,
         animationDuration := Some (orElse animationDuration0 2000),
         animationMode := Some ''flyTo'' \<rparr>"

definition fitBounds ::
  "GeoUtils \<Rightarrow> 'p CameraProps_scheme \<Rightarrow> Position \<Rightarrow> Position \<Rightarrow> PaddingConfig option \<Rightarrow> real option
     \<Rightarrow> error + NativeProps list" where
  "fitBounds g props ne0 sw0 paddingConfig animationDuration0 =
     setCamera g props (fitBounds_config ne0 sw0 paddingConfig animationDuration0)"

definition flyTo ::
  "GeoUtils \<Rightarrow> 'p CameraProps_scheme \<Rightarrow> Position \<Rightarrow> real option \<Rightarrow> error + NativeProps list" where
  "flyTo g props c animationDuration0 = setCamera g props (flyTo_config c animationDuration0)"

definition moveTo ::
  "GeoUtils \<Rightarrow> 'p CameraProps_scheme \<Rightarrow> Position \<Rightarrow> real option \<Rightarrow> error + NativeProps list" where
  "moveTo g props c animationDuration0 = setCamera g props (moveTo_config c animationDuration0)"

definition zoomTo ::
  "GeoUtils \<Rightarrow> 'p CameraProps_scheme \<Rightarrow> real \<Rightarrow> real option \<Rightarrow> error + NativeProps list" where
  "zoomTo g props z animationDuration0 = setCamera g props (zoomTo_config z animationDuration0)"

section \<open>Sample inputs\<close>

text \<open>Concrete collaborators and props on which the model is evaluated below.\<close>

definition sampleGeo :: GeoUtils where
  "sampleGeo =
     \<lparr> stringifyPosition = (\<lambda>p. ''position''), stringifyBounds = (\<lambda>b. ''bounds''),
       makePoint = (\<lambda>p. ''point''), makeLatLngBounds = (\<lambda>n s. ''box'') \<rparr>"

definition noProps :: CameraProps where
  "noProps =
     \<lparr> centerCoordinate = None, bounds = None, heading = None, pitch = None,
       zoomLevel = None, padding = None, animationDuration = None, animationMode = None,
       followUserLocation = None, defaultSettings = None \<rparr>"

section \<open>What stop resolution returns\<close>

text \<open>
  Each conditional assignment of \<^verbatim>\<open>buildNativeStop\<close> is one record update whose new value
  is the override's value if present and the old value otherwise.
\<close>


lemma buildNativeStop_suppressed:
  "followUserLocation props = Some True \<Longrightarrow> buildNativeStop g props stop False = None"
  by (simp add: buildNativeStop_def)

lemma buildNativeStop_returns:
  "\<not> (followUserLocation props = Some True \<and> \<not> ign) \<Longrightarrow>
     \<exists>r. buildNativeStop g props stop ign = Some r"
  by (simp add: buildNativeStop_def Let_def)

lemma upd_pitch:
  "(case x of None \<Rightarrow> s | Some v \<Rightarrow> s\<lparr>NativeCameraStop.pitch := Some v\<rparr>) =
     s\<lparr>NativeCameraStop.pitch := nullish x (NativeCameraStop.pitch s)\<rparr>"
  by (cases x) (simp_all add: nullish_def)

lemma upd_heading:
  "(case x of None \<Rightarrow> s | Some v \<Rightarrow> s\<lparr>NativeCameraStop.heading := Some v\<rparr>) =
     s\<lparr>NativeCameraStop.heading := nullish x (NativeCameraStop.heading s)\<rparr>"
  by (cases x) (simp_all add: nullish_def)

lemma upd_zoom:
  "(case x of None \<Rightarrow> s | Some v \<Rightarrow> s\<lparr>zoom := Some v\<rparr>) = s\<lparr>zoom := nullish x (zoom s)\<rparr>"
  by (cases x) (simp_all add: nullish_def)

lemma upd_mode:
  "(case x of None \<Rightarrow> s | Some m \<Rightarrow> s\<lparr>mode := Some (f m)\<rparr>) =
     s\<lparr>mode := nullish (map_option f x) (mode s)\<rparr>"
  by (cases x) (simp_all add: nullish_def)

lemma upd_duration:
  "(case x of None \<Rightarrow> s | Some v \<Rightarrow> s\<lparr>duration := Some v\<rparr>) =
     s\<lparr>duration := nullish x (duration s)\<rparr>"
  by (cases x) (simp_all add: nullish_def)

lemma upd_centerCoordinate:
  "(case x of None \<Rightarrow> s | Some c \<Rightarrow> s\<lparr>NativeCameraStop.centerCoordinate := Some (f c)\<rparr>) =
     s\<lparr>NativeCameraStop.centerCoordinate :=
         nullish (map_option f x) (NativeCameraStop.centerCoordinate s)\<rparr>"
  by (cases x) (simp_all add: nullish_def)

lemma upd_bounds:
  "(case x of None \<Rightarrow> s
    | Some b \<Rightarrow>
        (case ne b of None \<Rightarrow> s
         | Some n \<Rightarrow>
             (case sw b of None \<Rightarrow> s
              | Some w \<Rightarrow> s\<lparr>NativeCameraStop.bounds := Some (f n w)\<rparr>))) =
     s\<lparr>NativeCameraStop.bounds :=
         nullish (Option.bind x (\<lambda>b. Option.bind (ne b) (\<lambda>n. map_option (f n) (sw b))))
                 (NativeCameraStop.bounds s)\<rparr>"
  by (simp add: nullish_def split: option.splits)

lemmas upd_simps = upd_pitch upd_heading upd_zoom upd_mode upd_duration upd_centerCoordinate upd_bounds

lemma resolved_pitch:
  "buildNativeStop g props stop ign = Some r \<Longrightarrow>
     NativeCameraStop.pitch r =
       nullish (pitch stop) (NativeCameraStop.pitch (spread (nativeDefaultStop g props)))"
  by (auto simp: buildNativeStop_def Let_def upd_simps split: if_splits)

lemma resolved_heading:
  "buildNativeStop g props stop ign = Some r \<Longrightarrow>
     NativeCameraStop.heading r =
       nullish (heading stop) (NativeCameraStop.heading (spread (nativeDefaultStop g props)))"
  by (auto simp: buildNativeStop_def Let_def upd_simps split: if_splits)

lemma resolved_zoom:
  "buildNativeStop g props stop ign = Some r \<Longrightarrow>
     zoom r = nullish (zoomLevel stop) (zoom (spread (nativeDefaultStop g props)))"
  by (auto simp: buildNativeStop_def Let_def upd_simps split: if_splits)

lemma resolved_mode:
  "buildNativeStop g props stop ign = Some r \<Longrightarrow>
     mode r = nullish (map_option (\<lambda>m. nativeAnimationMode (Some m)) (animationMode stop))
                      (mode (spread (nativeDefaultStop g props)))"
  by (auto simp: buildNativeStop_def Let_def upd_simps split: if_splits)

lemma resolved_duration:
  "buildNativeStop g props stop ign = Some r \<Longrightarrow>
     duration r = nullish (animationDuration stop) (duration (spread (nativeDefaultStop g props)))"
  by (auto simp: buildNativeStop_def Let_def upd_simps split: if_splits)

lemma resolved_centerCoordinate:
  "buildNativeStop g props stop ign = Some r \<Longrightarrow>
     NativeCameraStop.centerCoordinate r =
       nullish (map_option (makePoint g) (centerCoordinate stop))
               (NativeCameraStop.centerCoordinate (spread (nativeDefaultStop g props)))"
  by (auto simp: buildNativeStop_def Let_def upd_simps split: if_splits)

lemma resolved_bounds:
  "buildNativeStop g props stop ign = Some r \<Longrightarrow>
     NativeCameraStop.bounds r =
       nullish (Option.bind (bounds stop) (\<lambda>b. Option.bind (ne b) (\<lambda>n.
                  map_option (makeLatLngBounds g n) (sw b))))
               (NativeCameraStop.bounds (spread (nativeDefaultStop g props)))"
  by (auto simp: buildNativeStop_def Let_def upd_simps split: if_splits)

lemma resolved_padding:
  assumes "buildNativeStop g props stop ign = Some r"
  shows "NativeCameraStop.paddingTop r =
           Some (orElse (nullish (Option.bind (padding stop) paddingTop)
                                 (Option.bind (bounds stop) paddingTop)) 0)"
    and "NativeCameraStop.paddingRight r =
           Some (orElse (nullish (Option.bind (padding stop) paddingRight)
                                 (Option.bind (bounds stop) paddingRight)) 0)"
    and "NativeCameraStop.paddingBottom r =
           Some (orElse (nullish (Option.bind (padding stop) paddingBottom)
                                 (Option.bind (bounds stop) paddingBottom)) 0)"
    and "NativeCameraStop.paddingLeft r =
           Some (orElse (nullish (Option.bind (padding stop) paddingLeft)
                                 (Option.bind (bounds stop) paddingLeft)) 0)"
  using assms
  by (auto simp: buildNativeStop_def Let_def split: if_splits)


section \<open>What the imperative handle sends\<close>

text \<open>
  The two branches of \<^verbatim>\<open>_setCamera\<close>, and the loop over the stops as a map: one call
  of \<^verbatim>\<open>setNativeProps\<close> for every element, in the order of the list.
\<close>

lemma setCamera_single:
  "type_tag config = Some CameraStop_tag \<Longrightarrow>
     setCamera g props config =
       (case buildNativeStop g props config False of
          Some n \<Rightarrow> Inr [StopProp n]
        | None \<Rightarrow> Inr [])"
  by (simp add: setCamera_def inferType_def)

lemma setCamera_stops:
  "type_tag config \<noteq> Some CameraStop_tag \<Longrightarrow> stops config = Some ss \<Longrightarrow>
     setCamera g props config = Inr (dispatchStops g props ss)"
proof (cases "type_tag config")
  case None
  assume "stops config = Some ss"
  with None show ?thesis by (simp add: setCamera_def inferType_def)
next
  case (Some t)
  assume "type_tag config \<noteq> Some CameraStop_tag" and "stops config = Some ss"
  with Some show ?thesis by (cases t) (simp_all add: setCamera_def inferType_def)
qed

lemma dispatchStops_map:
  "dispatchStops g props ss =
     map (\<lambda>stop. StopsProp (case buildNativeStop g props stop False of
                               Some n \<Rightarrow> [n] | None \<Rightarrow> [])) ss"
  by (induction ss) (simp_all split: option.splits)

text \<open>The default stop after the spread, and the two operators on concrete options.\<close>

lemma nativeDefaultStop_None:
  "defaultSettings props = None \<Longrightarrow> spread (nativeDefaultStop g props) = emptyNativeStop"
  by (simp add: nativeDefaultStop_def spread_def)

lemma nativeDefaultStop_Some:
  "defaultSettings props = Some ds \<Longrightarrow>
     spread (nativeDefaultStop g props) =
       \<lparr> NativeCameraStop.centerCoordinate = map_option (stringifyPosition g) (centerCoordinate ds),
         NativeCameraStop.bounds = map_option (stringifyBounds g) (bounds ds),
         NativeCameraStop.heading = Some (orElse (heading ds) 0),
         NativeCameraStop.pitch = Some (orElse (pitch ds) 0),
         zoom = Some (orElse (zoomLevel ds) 11),
         NativeCameraStop.paddingLeft = Some (orElse (Option.bind (padding ds) paddingLeft) 0),
         NativeCameraStop.paddingRight = Some (orElse (Option.bind (padding ds) paddingRight) 0),
         NativeCameraStop.paddingTop = Some (orElse (Option.bind (padding ds) paddingTop) 0),
         NativeCameraStop.paddingBottom = Some (orElse (Option.bind (padding ds) paddingBottom) 0),
         duration = Some (orElse (animationDuration ds) 2000),
         mode = Some (nativeAnimationMode (animationMode ds)) \<rparr>"
  by (simp add: nativeDefaultStop_def spread_def)

lemma nullish_simps:
  "nullish None b = b" "nullish (Some x) b = Some x"
  by (simp_all add: nullish_def)

lemma orElse_simps:
  "orElse None d = d" "orElse (Some x) d = x"
  by (simp_all add: orElse_def)

lemma nullish_Some_orElse: "nullish a (Some d) = Some (orElse a d)"
  by (cases a) (simp_all add: nullish_def orElse_def)

lemmas sample_simps = noProps_def emptyStop_def emptyConfig_def sampleGeo_def
  nullish_def orElse_def

lemmas mode_simps = nativeAnimationMode_def CameraModes_Flight_def CameraModes_Ease_def
  CameraModes_Linear_def CameraModes_Move_def CameraModes_None_def
  NativeCameraModes_Flight_def NativeCameraModes_Ease_def NativeCameraModes_Linear_def
  NativeCameraModes_Move_def

section \<open>Claims\<close>

text \<open>
  C1 (as amended). A stop that is not suppressed is always resolved, and its four padding
  sides always have a value. When the caller supplies \<^verbatim>\<open>defaultSettings\<close>, heading,
  pitch, zoom, duration and mode have a value as well: the override's, else the default
  configuration's, else heading 0, pitch 0, zoom 11, duration 2000 and mode ease; centre and
  bounds have a value only if the override or the default configuration supplies them. When
  the caller supplies no \<^verbatim>\<open>defaultSettings\<close>, only the padding sides fall back (to the side
  attached to the override's \<^verbatim>\<open>bounds\<close>, else to 0); heading, pitch, zoom, duration, mode,
  centre and bounds are exactly what the override sets and stay absent otherwise.
\<close>

theorem C1_resolved_fields:
  assumes "\<not> (followUserLocation props = Some True \<and> \<not> ign)"
  shows "\<exists>r. buildNativeStop g props stop ign = Some r \<and>
     NativeCameraStop.paddingTop r \<noteq> None \<and> NativeCameraStop.paddingRight r \<noteq> None \<and>
     NativeCameraStop.paddingBottom r \<noteq> None \<and> NativeCameraStop.paddingLeft r \<noteq> None \<and>
     (case defaultSettings props of
        Some ds \<Rightarrow>
          NativeCameraStop.heading r = Some (orElse (heading stop) (orElse (heading ds) 0)) \<and>
          NativeCameraStop.pitch r = Some (orElse (pitch stop) (orElse (pitch ds) 0)) \<and>
          zoom r = Some (orElse (zoomLevel stop) (orElse (zoomLevel ds) 11)) \<and>
          duration r = Some (orElse (animationDuration stop) (orElse (animationDuration ds) 2000)) \<and>
          mode r = Some (nativeAnimationMode (nullish (animationMode stop) (animationMode ds))) \<and>
          NativeCameraStop.centerCoordinate r =
            nullish (map_option (makePoint g) (centerCoordinate stop))
                    (map_option (stringifyPosition g) (centerCoordinate ds)) \<and>
          NativeCameraStop.bounds r =
            nullish (Option.bind (bounds stop) (\<lambda>b. Option.bind (ne b) (\<lambda>n.
                       map_option (makeLatLngBounds g n) (sw b))))
                    (map_option (stringifyBounds g) (bounds ds))
      | None \<Rightarrow>
          NativeCameraStop.heading r = heading stop \<and>
          NativeCameraStop.pitch r = pitch stop \<and>
          zoom r = zoomLevel stop \<and>
          duration r = animationDuration stop \<and>
          mode r = map_option (\<lambda>m. nativeAnimationMode (Some m)) (animationMode stop) \<and>
          NativeCameraStop.centerCoordinate r = map_option (makePoint g) (centerCoordinate stop) \<and>
          NativeCameraStop.bounds r =
            Option.bind (bounds stop) (\<lambda>b. Option.bind (ne b) (\<lambda>n.
              map_option (makeLatLngBounds g n) (sw b))) \<and>
          NativeCameraStop.paddingTop r =
            Some (orElse (nullish (Option.bind (padding stop) paddingTop)
                                  (Option.bind (bounds stop) paddingTop)) 0) \<and>
          NativeCameraStop.paddingRight r =
            Some (orElse (nullish (Option.bind (padding stop) paddingRight)
                                  (Option.bind (bounds stop) paddingRight)) 0) \<and>
          NativeCameraStop.paddingBottom r =
            Some (orElse (nullish (Option.bind (padding stop) paddingBottom)
                                  (Option.bind (bounds stop) paddingBottom)) 0) \<and>
          NativeCameraStop.paddingLeft r =
            Some (orElse (nullish (Option.bind (padding stop) paddingLeft)
                                  (Option.bind (bounds stop) paddingLeft)) 0))"
proof -
  from assms obtain r where r: "buildNativeStop g props stop ign = Some r"
    using buildNativeStop_returns by blast
  note pad = resolved_padding [OF r]
  show ?thesis
  proof (cases "defaultSettings props")
    case None
    note d = nativeDefaultStop_None [OF None, of g]
    have e: "nullish a None = a" for a :: "'x option"
      by (cases a) (simp_all add: nullish_def)
    show ?thesis
      using resolved_heading [OF r] resolved_pitch [OF r] resolved_zoom [OF r]
        resolved_duration [OF r] resolved_mode [OF r] resolved_centerCoordinate [OF r]
        resolved_bounds [OF r] pad
      by (simp add: r None d emptyNativeStop_def e)
  next
    case (Some ds)
    note d = nativeDefaultStop_Some [OF Some, of g]
    have m: "mode r = Some (nativeAnimationMode (nullish (animationMode stop) (animationMode ds)))"
      using resolved_mode [OF r] by (cases "animationMode stop") (simp_all add: d nullish_def)
    show ?thesis
      using resolved_heading [OF r] resolved_pitch [OF r] resolved_zoom [OF r]
        resolved_duration [OF r] resolved_centerCoordinate [OF r] resolved_bounds [OF r] m pad
      by (simp add: r Some d nullish_Some_orElse)
  qed
qed

theorem C1_resolved_fields_witness:
  "\<not> (followUserLocation (noProps\<lparr>defaultSettings := Some emptyStop\<rparr>) = Some True \<and> \<not> False) \<and>
   (\<exists>r. buildNativeStop sampleGeo (noProps\<lparr>defaultSettings := Some emptyStop\<rparr>)
          (emptyStop\<lparr>zoomLevel := Some 14\<rparr>) False = Some r \<and>
        NativeCameraStop.heading r = Some 0 \<and> NativeCameraStop.pitch r = Some 0 \<and>
        zoom r = Some 14 \<and> duration r = Some 2000 \<and> mode r = Some ease \<and>
        NativeCameraStop.centerCoordinate r = None \<and> NativeCameraStop.bounds r = None \<and>
        NativeCameraStop.paddingTop r \<noteq> None \<and> NativeCameraStop.paddingRight r \<noteq> None \<and>
        NativeCameraStop.paddingBottom r \<noteq> None \<and> NativeCameraStop.paddingLeft r \<noteq> None)"
  using C1_resolved_fields [where props = "noProps\<lparr>defaultSettings := Some emptyStop\<rparr>"
      and ign = False and g = sampleGeo and stop = "emptyStop\<lparr>zoomLevel := Some 14\<rparr>"]
  by (auto simp: sample_simps mode_simps)

text \<open>
  C1 as stated fails: without \<^verbatim>\<open>defaultSettings\<close> the default stop is \<^verbatim>\<open>null\<close>, and an
  empty override resolves to a stop whose heading, pitch, zoom, duration and mode are absent
  (not 0, 0, 11, 2000 and ease).
\<close>

theorem C1_no_default_counterexample:
  "defaultSettings noProps = None \<and>
   buildNativeStop sampleGeo noProps emptyStop False =
     Some \<lparr> NativeCameraStop.centerCoordinate = None, NativeCameraStop.bounds = None,
            NativeCameraStop.heading = None, NativeCameraStop.pitch = None, zoom = None,
            NativeCameraStop.paddingLeft = Some 0, NativeCameraStop.paddingRight = Some 0,
            NativeCameraStop.paddingTop = Some 0, NativeCameraStop.paddingBottom = Some 0,
            duration = None, mode = None \<rparr>"
  by (simp add: buildNativeStop_def nativeDefaultStop_def spread_def emptyNativeStop_def
      sample_simps)

text \<open>
  C2. An override that sets only \<^verbatim>\<open>zoomLevel\<close> should leave every other field of the
  default stop unchanged, the four padding sides included. The code evaluated on a default
  configuration with padding 5 on every side and the override \<^verbatim>\<open>{zoomLevel: 14}\<close>: the
  default stop has padding 5, the resolved stop has padding 0 on every side.
\<close>

theorem C2_default_padding_lost:
  "nativeDefaultStop sampleGeo
     (noProps\<lparr>defaultSettings := Some (emptyStop\<lparr>padding :=
        Some \<lparr> paddingLeft = Some 5, paddingRight = Some 5,
               paddingTop = Some 5, paddingBottom = Some 5 \<rparr>\<rparr>)\<rparr>) =
     Some \<lparr> NativeCameraStop.centerCoordinate = None, NativeCameraStop.bounds = None,
            NativeCameraStop.heading = Some 0, NativeCameraStop.pitch = Some 0, zoom = Some 11,
            NativeCameraStop.paddingLeft = Some 5, NativeCameraStop.paddingRight = Some 5,
            NativeCameraStop.paddingTop = Some 5, NativeCameraStop.paddingBottom = Some 5,
            duration = Some 2000, mode = Some ease \<rparr> \<and>
   buildNativeStop sampleGeo
     (noProps\<lparr>defaultSettings := Some (emptyStop\<lparr>padding :=
        Some \<lparr> paddingLeft = Some 5, paddingRight = Some 5,
               paddingTop = Some 5, paddingBottom = Some 5 \<rparr>\<rparr>)\<rparr>)
     (emptyStop\<lparr>zoomLevel := Some 14\<rparr>) False =
     Some \<lparr> NativeCameraStop.centerCoordinate = None, NativeCameraStop.bounds = None,
            NativeCameraStop.heading = Some 0, NativeCameraStop.pitch = Some 0, zoom = Some 14,
            NativeCameraStop.paddingLeft = Some 0, NativeCameraStop.paddingRight = Some 0,
            NativeCameraStop.paddingTop = Some 0, NativeCameraStop.paddingBottom = Some 0,
            duration = Some 2000, mode = Some ease \<rparr>"
  by (simp add: buildNativeStop_def nativeDefaultStop_def spread_def sample_simps mode_simps)

text \<open>
  The part of C2 that the code keeps: heading, pitch, duration, mode, centre and bounds of the
  default stop survive a zoom-only override; the padding sides are reset to 0.
\<close>

lemma zoom_only_keeps_other_fields:
  assumes "\<not> (followUserLocation props = Some True \<and> \<not> ign)"
  shows "\<exists>r. buildNativeStop g props (emptyStop\<lparr>zoomLevel := Some z\<rparr>) ign = Some r \<and>
     zoom r = Some z \<and>
     NativeCameraStop.heading r = NativeCameraStop.heading (spread (nativeDefaultStop g props)) \<and>
     NativeCameraStop.pitch r = NativeCameraStop.pitch (spread (nativeDefaultStop g props)) \<and>
     duration r = duration (spread (nativeDefaultStop g props)) \<and>
     mode r = mode (spread (nativeDefaultStop g props)) \<and>
     NativeCameraStop.centerCoordinate r =
       NativeCameraStop.centerCoordinate (spread (nativeDefaultStop g props)) \<and>
     NativeCameraStop.bounds r = NativeCameraStop.bounds (spread (nativeDefaultStop g props)) \<and>
     NativeCameraStop.paddingTop r = Some 0 \<and> NativeCameraStop.paddingRight r = Some 0 \<and>
     NativeCameraStop.paddingBottom r = Some 0 \<and> NativeCameraStop.paddingLeft r = Some 0"
proof -
  let ?stop = "emptyStop\<lparr>zoomLevel := Some z\<rparr>"
  from assms obtain r where r: "buildNativeStop g props ?stop ign = Some r"
    using buildNativeStop_returns by blast
  show ?thesis
    using r resolved_zoom [OF r] resolved_heading [OF r] resolved_pitch [OF r]
      resolved_duration [OF r] resolved_mode [OF r] resolved_centerCoordinate [OF r]
      resolved_bounds [OF r] resolved_padding [OF r]
    by (simp add: emptyStop_def nullish_simps orElse_simps)
qed

text \<open>
  C3. While follow mode is active (\<^verbatim>\<open>followUserLocation\<close> is true) and
  \<^verbatim>\<open>ignoreFollowUserLocation\<close> is false, resolving any override against any default
  returns \<^verbatim>\<open>null\<close>, whatever the override holds, and \<^verbatim>\<open>setCamera\<close> on a single stop then
  sends nothing.
\<close>

theorem C3_follow_suppresses:
  assumes "followUserLocation props = Some True"
  shows "buildNativeStop g props stop False = None \<and>
         setCamera g props (config\<lparr>type_tag := Some CameraStop_tag\<rparr>) = Inr []"
  using assms by (simp add: setCamera_single buildNativeStop_suppressed)

theorem C3_follow_suppresses_witness:
  "followUserLocation (noProps\<lparr>followUserLocation := Some True\<rparr>) = Some True \<and>
   buildNativeStop sampleGeo (noProps\<lparr>followUserLocation := Some True\<rparr>)
     (emptyStop\<lparr>zoomLevel := Some 14\<rparr>) False = None \<and>
   setCamera sampleGeo (noProps\<lparr>followUserLocation := Some True\<rparr>)
     (emptyConfig\<lparr>zoomLevel := Some 14, type_tag := Some CameraStop_tag\<rparr>) = Inr []"
  using C3_follow_suppresses [of "noProps\<lparr>followUserLocation := Some True\<rparr>" sampleGeo
      "emptyStop\<lparr>zoomLevel := Some 14\<rparr>" "emptyConfig\<lparr>zoomLevel := Some 14\<rparr>"]
  by simp

text \<open>
  C4. Every element of a stop list should be resolved with \<^verbatim>\<open>ignoreFollowUserLocation\<close>
  false and sent on its own, in order, and a suppressed element should cause no call at all.
  The code evaluated in follow mode on a list of one stop: \<^verbatim>\<open>setNativeProps\<close> is still
  called once, with an empty \<^verbatim>\<open>stops\<close> array, whereas the single-stop branch makes no
  call for the same stop.
\<close>

theorem C4_suppressed_element_dispatched:
  "setCamera sampleGeo (noProps\<lparr>followUserLocation := Some True\<rparr>)
     (emptyConfig\<lparr>type_tag := Some CameraStops_tag,
                   stops := Some [emptyStop\<lparr>zoomLevel := Some 14\<rparr>]\<rparr>) =
     Inr [StopsProp []] \<and>
   setCamera sampleGeo (noProps\<lparr>followUserLocation := Some True\<rparr>)
     (emptyConfig\<lparr>type_tag := Some CameraStop_tag, zoomLevel := Some 14\<rparr>) = Inr []"
  by (simp add: setCamera_def inferType_def buildNativeStop_def sample_simps)

text \<open>
  C5 (as amended). When the override supplies both a centre coordinate and bounds with both
  corners, the resolved stop carries both: \<^verbatim>\<open>centerCoordinate\<close> is the serialised point and
  \<^verbatim>\<open>bounds\<close> is the serialised box. The centre is written first and the bounds second, each
  to its own field, so neither replaces the other. Each padding side is the side of the
  override's \<^verbatim>\<open>padding\<close>, else the side attached to the bounds, else 0.
\<close>

theorem C5_center_and_bounds_both_set:
  assumes "centerCoordinate stop = Some c"
      and "bounds stop = Some b" and "ne b = Some n" and "sw b = Some w"
      and "\<not> (followUserLocation props = Some True \<and> \<not> ign)"
  shows "\<exists>r. buildNativeStop g props stop ign = Some r \<and>
     NativeCameraStop.centerCoordinate r = Some (makePoint g c) \<and>
     NativeCameraStop.bounds r = Some (makeLatLngBounds g n w) \<and>
     NativeCameraStop.paddingTop r =
       Some (orElse (nullish (Option.bind (padding stop) paddingTop) (paddingTop b)) 0) \<and>
     NativeCameraStop.paddingRight r =
       Some (orElse (nullish (Option.bind (padding stop) paddingRight) (paddingRight b)) 0) \<and>
     NativeCameraStop.paddingBottom r =
       Some (orElse (nullish (Option.bind (padding stop) paddingBottom) (paddingBottom b)) 0) \<and>
     NativeCameraStop.paddingLeft r =
       Some (orElse (nullish (Option.bind (padding stop) paddingLeft) (paddingLeft b)) 0)"
proof -
  from assms(5) obtain r where r: "buildNativeStop g props stop ign = Some r"
    using buildNativeStop_returns by blast
  show ?thesis
    using r resolved_centerCoordinate [OF r] resolved_bounds [OF r] resolved_padding [OF r]
      assms(1-4)
    by (simp add: nullish_simps)
qed

theorem C5_center_and_bounds_both_set_witness:
  "centerCoordinate (emptyStop\<lparr>centerCoordinate := Some [10, 20],
      bounds := Some \<lparr> paddingLeft = Some 7, paddingRight = None, paddingTop = None,
                       paddingBottom = None, ne = Some [12, 34], sw = Some [10, 30] \<rparr>\<rparr>)
     = Some [10, 20] \<and>
   \<not> (followUserLocation noProps = Some True \<and> \<not> False) \<and>
   (\<exists>r. buildNativeStop sampleGeo noProps
          (emptyStop\<lparr>centerCoordinate := Some [10, 20],
             bounds := Some \<lparr> paddingLeft = Some 7, paddingRight = None, paddingTop = None,
                              paddingBottom = None, ne = Some [12, 34], sw = Some [10, 30] \<rparr>\<rparr>)
          False = Some r \<and>
        NativeCameraStop.centerCoordinate r = Some ''point'' \<and>
        NativeCameraStop.bounds r = Some ''box'' \<and>
        NativeCameraStop.paddingLeft r = Some 7 \<and> NativeCameraStop.paddingTop r = Some 0)"
  using C5_center_and_bounds_both_set [where props = noProps and ign = False and g = sampleGeo
      and stop = "emptyStop\<lparr>centerCoordinate := Some [10, 20],
             bounds := Some \<lparr> paddingLeft = Some 7, paddingRight = None, paddingTop = None,
                              paddingBottom = None, ne = Some [12, 34], sw = Some [10, 30] \<rparr>\<rparr>"
      and c = "[10, 20]" and n = "[12, 34]" and w = "[10, 30]"
      and b = "\<lparr> paddingLeft = Some 7, paddingRight = None, paddingTop = None,
                              paddingBottom = None, ne = Some [12, 34], sw = Some [10, 30] \<rparr>"]
  by (auto simp: sample_simps)

text \<open>
  C5 as stated fails: with a centre and complete bounds the resolved stop still holds the
  box, next to the point.
\<close>

theorem C5_box_kept_counterexample:
  "buildNativeStop sampleGeo noProps
     (emptyStop\<lparr>centerCoordinate := Some [10, 20],
        bounds := Some \<lparr> paddingLeft = None, paddingRight = None, paddingTop = None,
                         paddingBottom = None, ne = Some [12, 34], sw = Some [10, 30] \<rparr>\<rparr>)
     False =
     Some \<lparr> NativeCameraStop.centerCoordinate = Some ''point'',
            NativeCameraStop.bounds = Some ''box'',
            NativeCameraStop.heading = None, NativeCameraStop.pitch = None, zoom = None,
            NativeCameraStop.paddingLeft = Some 0, NativeCameraStop.paddingRight = Some 0,
            NativeCameraStop.paddingTop = Some 0, NativeCameraStop.paddingBottom = Some 0,
            duration = None, mode = None \<rparr>"
  by (simp add: buildNativeStop_def nativeDefaultStop_def spread_def emptyNativeStop_def
      sample_simps)

text \<open>
  C6 (as amended). When the override's \<^verbatim>\<open>padding\<close> object has all four sides, as
  \<^verbatim>\<open>CameraPadding\<close> declares, the resolved padding is that object's, side by side, whatever
  padding is attached to the bounds.
\<close>

theorem C6_complete_padding_object_wins:
  assumes "padding stop = Some p"
      and "paddingTop p = Some t" and "paddingRight p = Some rt"
      and "paddingBottom p = Some bt" and "paddingLeft p = Some l"
      and "\<not> (followUserLocation props = Some True \<and> \<not> ign)"
  shows "\<exists>r. buildNativeStop g props stop ign = Some r \<and>
     NativeCameraStop.paddingTop r = Some t \<and> NativeCameraStop.paddingRight r = Some rt \<and>
     NativeCameraStop.paddingBottom r = Some bt \<and> NativeCameraStop.paddingLeft r = Some l"
proof -
  from assms(6) obtain r where r: "buildNativeStop g props stop ign = Some r"
    using buildNativeStop_returns by blast
  show ?thesis
    using r resolved_padding [OF r] assms(1-5)
    by (simp add: nullish_simps orElse_simps)
qed

theorem C6_complete_padding_object_wins_witness:
  "padding (emptyStop\<lparr>padding := Some \<lparr> paddingLeft = Some 4, paddingRight = Some 2,
                                        paddingTop = Some 1, paddingBottom = Some 3 \<rparr>,
      bounds := Some \<lparr> paddingLeft = Some 7, paddingRight = Some 7, paddingTop = Some 7,
                       paddingBottom = Some 7, ne = Some [12, 34], sw = Some [10, 30] \<rparr>\<rparr>)
     = Some \<lparr> paddingLeft = Some 4, paddingRight = Some 2,
              paddingTop = Some 1, paddingBottom = Some 3 \<rparr> \<and>
   \<not> (followUserLocation noProps = Some True \<and> \<not> False) \<and>
   (\<exists>r. buildNativeStop sampleGeo noProps
          (emptyStop\<lparr>padding := Some \<lparr> paddingLeft = Some 4, paddingRight = Some 2,
                                        paddingTop = Some 1, paddingBottom = Some 3 \<rparr>,
             bounds := Some \<lparr> paddingLeft = Some 7, paddingRight = Some 7, paddingTop = Some 7,
                              paddingBottom = Some 7, ne = Some [12, 34], sw = Some [10, 30] \<rparr>\<rparr>)
          False = Some r \<and>
        NativeCameraStop.paddingTop r = Some 1 \<and> NativeCameraStop.paddingRight r = Some 2 \<and>
        NativeCameraStop.paddingBottom r = Some 3 \<and> NativeCameraStop.paddingLeft r = Some 4)"
  using C6_complete_padding_object_wins [where props = noProps and ign = False and g = sampleGeo
      and stop = "emptyStop\<lparr>padding := Some \<lparr> paddingLeft = Some 4, paddingRight = Some 2,
                                        paddingTop = Some 1, paddingBottom = Some 3 \<rparr>,
             bounds := Some \<lparr> paddingLeft = Some 7, paddingRight = Some 7, paddingTop = Some 7,
                              paddingBottom = Some 7, ne = Some [12, 34], sw = Some [10, 30] \<rparr>\<rparr>"
      and p = "\<lparr> paddingLeft = Some 4, paddingRight = Some 2,
                 paddingTop = Some 1, paddingBottom = Some 3 \<rparr>"
      and t = 1 and rt = 2 and bt = 3 and l = 4]
  by (auto simp: sample_simps)

text \<open>
  C6 as stated fails: the fallback is evaluated for each side on its own, so a padding
  object that has only \<^verbatim>\<open>paddingTop\<close> gives the top side, and the left side comes from the
  bounds.
\<close>

theorem C6_per_side_mix_counterexample:
  "buildNativeStop sampleGeo noProps
     (emptyStop\<lparr>padding := Some \<lparr> paddingLeft = None, paddingRight = None,
                                   paddingTop = Some 5, paddingBottom = None \<rparr>,
        bounds := Some \<lparr> paddingLeft = Some 7, paddingRight = None, paddingTop = Some 9,
                         paddingBottom = None, ne = Some [12, 34], sw = Some [10, 30] \<rparr>\<rparr>)
     False =
     Some \<lparr> NativeCameraStop.centerCoordinate = None, NativeCameraStop.bounds = Some ''box'',
            NativeCameraStop.heading = None, NativeCameraStop.pitch = None, zoom = None,
            NativeCameraStop.paddingLeft = Some 7, NativeCameraStop.paddingRight = Some 0,
            NativeCameraStop.paddingTop = Some 5, NativeCameraStop.paddingBottom = Some 0,
            duration = None, mode = None \<rparr>"
  by (simp add: buildNativeStop_def nativeDefaultStop_def spread_def emptyNativeStop_def
      sample_simps)

text \<open>
  C7. The padding that \<^verbatim>\<open>fitBounds\<close> derives from its \<^verbatim>\<open>paddingConfig\<close>: a number gives
  that number on all four sides; a two-element array gives top and bottom from element 0
  and left and right from element 1; a four-element array is top, right, bottom, left; an
  absent argument gives 0 on all sides; an array of any other length gives 0 on all sides
  and raises nothing. This padding is the \<^verbatim>\<open>padding\<close> of the stop handed to
  \<^verbatim>\<open>setCamera\<close>.
\<close>

theorem C7_fitBounds_padding:
  "fitBounds_padding (Some (PaddingNumber n)) =
     \<lparr> paddingLeft = Some n, paddingRight = Some n, paddingTop = Some n, paddingBottom = Some n \<rparr> \<and>
   fitBounds_padding (Some (PaddingArray [v, h])) =
     \<lparr> paddingLeft = Some h, paddingRight = Some h, paddingTop = Some v, paddingBottom = Some v \<rparr> \<and>
   fitBounds_padding (Some (PaddingArray [a, b, c, d])) =
     \<lparr> paddingLeft = Some d, paddingRight = Some b, paddingTop = Some a, paddingBottom = Some c \<rparr> \<and>
   fitBounds_padding None =
     \<lparr> paddingLeft = Some 0, paddingRight = Some 0, paddingTop = Some 0, paddingBottom = Some 0 \<rparr> \<and>
   (length xs \<noteq> 2 \<and> length xs \<noteq> 4 \<longrightarrow>
      fitBounds_padding (Some (PaddingArray xs)) =
        \<lparr> paddingLeft = Some 0, paddingRight = Some 0, paddingTop = Some 0, paddingBottom = Some 0 \<rparr>) \<and>
   padding (fitBounds_config ne0 sw0 paddingConfig animationDuration0) =
     Some (fitBounds_padding paddingConfig)"
  by (simp add: fitBounds_padding_def orElse_def fitBounds_config_def emptyConfig_def)

theorem C7_fitBounds_padding_witness:
  "length [1, 2, 3 :: real] \<noteq> 2 \<and> length [1, 2, 3 :: real] \<noteq> 4 \<and>
   fitBounds_padding (Some (PaddingArray [1, 2, 3])) =
     \<lparr> paddingLeft = Some 0, paddingRight = Some 0, paddingTop = Some 0, paddingBottom = Some 0 \<rparr> \<and>
   fitBounds_padding (Some (PaddingArray [5, 8])) =
     \<lparr> paddingLeft = Some 8, paddingRight = Some 8, paddingTop = Some 5, paddingBottom = Some 5 \<rparr>"
  using C7_fitBounds_padding [of 0 5 8 0 0 0 0 "[1, 2, 3]" "[]" "[]" None None]
  by simp

text \<open>
  C8. \<^verbatim>\<open>nativeAnimationMode\<close> is total: \<^verbatim>\<open>'flyTo'\<close> gives flight, \<^verbatim>\<open>'easeTo'\<close> ease,
  \<^verbatim>\<open>'linearTo'\<close> linear, \<^verbatim>\<open>'moveTo'\<close> move, \<^verbatim>\<open>'none'\<close> move, and an absent or any other
  mode gives ease.
\<close>

theorem C8_nativeAnimationMode:
  "nativeAnimationMode (Some ''flyTo'') = flight \<and>
   nativeAnimationMode (Some ''easeTo'') = ease \<and>
   nativeAnimationMode (Some ''linearTo'') = linear \<and>
   nativeAnimationMode (Some ''moveTo'') = move \<and>
   nativeAnimationMode (Some ''none'') = move \<and>
   nativeAnimationMode None = ease \<and>
   (m \<notin> {''flyTo'', ''easeTo'', ''linearTo'', ''moveTo'', ''none''} \<longrightarrow>
        nativeAnimationMode (Some m) = ease)"
  by (simp add: nativeAnimationMode_def CameraModes_Flight_def CameraModes_Ease_def
      CameraModes_Linear_def CameraModes_Move_def CameraModes_None_def
      NativeCameraModes_Flight_def NativeCameraModes_Ease_def NativeCameraModes_Linear_def
      NativeCameraModes_Move_def)

theorem C8_nativeAnimationMode_witness:
  "''zoom'' \<notin> {''flyTo'', ''easeTo'', ''linearTo'', ''moveTo'', ''none''} \<and>
   nativeAnimationMode (Some ''zoom'') = ease"
  using C8_nativeAnimationMode [of "''zoom''"] by simp

text \<open>
  C9. Outside follow mode, \<^verbatim>\<open>flyTo\<close> hands \<^verbatim>\<open>setCamera\<close> a stop with only the centre
  coordinate and the duration (default 2000) set; its animation mode is unset, so the one stop
  sent has the mode of the default stop. \<^verbatim>\<open>zoomTo\<close> sends one stop with the given zoom,
  the duration (default 2000) and mode flight, whatever the default stop says.
\<close>

theorem C9_flyTo_inherits_zoomTo_forces:
  assumes "followUserLocation props \<noteq> Some True"
  shows "CameraStop.truncate (flyTo_config c d) =
           emptyStop\<lparr>centerCoordinate := Some c, animationDuration := Some (orElse d 2000)\<rparr> \<and>
         animationMode (flyTo_config c d) = None \<and>
         (\<exists>r. flyTo g props c d = Inr [StopProp r] \<and>
              mode r = mode (spread (nativeDefaultStop g props)) \<and>
              NativeCameraStop.centerCoordinate r = Some (makePoint g c) \<and>
              duration r = Some (orElse d 2000)) \<and>
         (\<exists>r. zoomTo g props z d = Inr [StopProp r] \<and>
              mode r = Some flight \<and> zoom r = Some z \<and> duration r = Some (orElse d 2000))"
proof -
  have cfg: "CameraStop.truncate (flyTo_config c d) =
           emptyStop\<lparr>centerCoordinate := Some c, animationDuration := Some (orElse d 2000)\<rparr>"
    "animationMode (flyTo_config c d) = None"
    by (simp_all add: flyTo_config_def emptyConfig_def emptyStop_def CameraStop.truncate_def)
  from assms obtain r where r: "buildNativeStop g props (flyTo_config c d) False = Some r"
    using buildNativeStop_returns [of props False] by blast
  have fly_tag: "type_tag (flyTo_config c d) = Some CameraStop_tag"
    by (simp add: flyTo_config_def)
  have fly: "flyTo g props c d = Inr [StopProp r]"
    by (simp add: flyTo_def setCamera_single [OF fly_tag] r)
  have fly_fields: "mode r = mode (spread (nativeDefaultStop g props))"
    "NativeCameraStop.centerCoordinate r = Some (makePoint g c)"
    "duration r = Some (orElse d 2000)"
    using resolved_mode [OF r] resolved_centerCoordinate [OF r] resolved_duration [OF r]
    by (simp_all add: flyTo_config_def emptyConfig_def nullish_simps)
  from assms obtain r' where r': "buildNativeStop g props (zoomTo_config z d) False = Some r'"
    using buildNativeStop_returns [of props False] by blast
  have zoom_tag: "type_tag (zoomTo_config z d) = Some CameraStop_tag"
    by (simp add: zoomTo_config_def)
  have zoom: "zoomTo g props z d = Inr [StopProp r']"
    by (simp add: zoomTo_def setCamera_single [OF zoom_tag] r')
  have zoom_fields: "mode r' = Some flight" "zoom r' = Some z" "duration r' = Some (orElse d 2000)"
    using resolved_mode [OF r'] resolved_zoom [OF r'] resolved_duration [OF r']
    by (simp_all add: zoomTo_config_def emptyConfig_def nullish_simps mode_simps)
  from cfg fly fly_fields zoom zoom_fields show ?thesis by blast
qed

theorem C9_flyTo_inherits_zoomTo_forces_witness:
  "followUserLocation (noProps\<lparr>defaultSettings := Some (emptyStop\<lparr>animationMode := Some ''linearTo''\<rparr>)\<rparr>)
     \<noteq> Some True \<and>
   (\<exists>r. flyTo sampleGeo
          (noProps\<lparr>defaultSettings := Some (emptyStop\<lparr>animationMode := Some ''linearTo''\<rparr>)\<rparr>)
          [10, 20] None = Inr [StopProp r] \<and>
        mode r = Some linear \<and> NativeCameraStop.centerCoordinate r = Some ''point'' \<and>
        duration r = Some 2000) \<and>
   (\<exists>r. zoomTo sampleGeo
          (noProps\<lparr>defaultSettings := Some (emptyStop\<lparr>animationMode := Some ''linearTo''\<rparr>)\<rparr>)
          14 None = Inr [StopProp r] \<and>
        mode r = Some flight \<and> zoom r = Some 14 \<and> duration r = Some 2000)"
  using C9_flyTo_inherits_zoomTo_forces [where g = sampleGeo and c = "[10, 20]" and d = None
      and z = 14
      and props = "noProps\<lparr>defaultSettings := Some (emptyStop\<lparr>animationMode := Some ''linearTo''\<rparr>)\<rparr>"]
  by (auto simp: sample_simps mode_simps nativeDefaultStop_def spread_def)

text \<open>
  C10. When the override's bounds object lacks the \<^verbatim>\<open>ne\<close> or the \<^verbatim>\<open>sw\<close> corner, the
  resolved \<^verbatim>\<open>bounds\<close> is the default stop's, and each padding side is still the side of
  the override's \<^verbatim>\<open>padding\<close> if it has one and otherwise the side attached to that partial
  bounds object, else 0.
\<close>

theorem C10_partial_bounds:
  assumes "bounds stop = Some b" and "ne b = None \<or> sw b = None"
      and "\<not> (followUserLocation props = Some True \<and> \<not> ign)"
  shows "\<exists>r. buildNativeStop g props stop ign = Some r \<and>
     NativeCameraStop.bounds r = NativeCameraStop.bounds (spread (nativeDefaultStop g props)) \<and>
     NativeCameraStop.paddingTop r =
       Some (orElse (nullish (Option.bind (padding stop) paddingTop) (paddingTop b)) 0) \<and>
     NativeCameraStop.paddingRight r =
       Some (orElse (nullish (Option.bind (padding stop) paddingRight) (paddingRight b)) 0) \<and>
     NativeCameraStop.paddingBottom r =
       Some (orElse (nullish (Option.bind (padding stop) paddingBottom) (paddingBottom b)) 0) \<and>
     NativeCameraStop.paddingLeft r =
       Some (orElse (nullish (Option.bind (padding stop) paddingLeft) (paddingLeft b)) 0)"
proof -
  from assms(3) obtain r where r: "buildNativeStop g props stop ign = Some r"
    using buildNativeStop_returns by blast
  have "Option.bind (bounds stop) (\<lambda>b. Option.bind (ne b) (\<lambda>n.
          map_option (makeLatLngBounds g n) (sw b))) = None"
    using assms(1,2) by (cases "ne b") auto
  then have "NativeCameraStop.bounds r = NativeCameraStop.bounds (spread (nativeDefaultStop g props))"
    using resolved_bounds [OF r] by (simp add: nullish_simps)
  then show ?thesis
    using r resolved_padding [OF r] assms(1) by simp
qed

theorem C10_partial_bounds_witness:
  "ne \<lparr> paddingLeft = Some 7, paddingRight = None, paddingTop = Some 9,
        paddingBottom = None, ne = None, sw = Some [10, 30] \<rparr> = None \<and>
   (\<exists>r. buildNativeStop sampleGeo
          (noProps\<lparr>defaultSettings := Some (emptyStop\<lparr>bounds :=
             Some \<lparr> paddingLeft = None, paddingRight = None, paddingTop = None,
                    paddingBottom = None, ne = Some [1, 2], sw = Some [3, 4] \<rparr>\<rparr>)\<rparr>)
          (emptyStop\<lparr>padding := Some \<lparr> paddingLeft = None, paddingRight = None,
                                        paddingTop = Some 5, paddingBottom = None \<rparr>,
             bounds := Some \<lparr> paddingLeft = Some 7, paddingRight = None, paddingTop = Some 9,
                              paddingBottom = None, ne = None, sw = Some [10, 30] \<rparr>\<rparr>)
          False = Some r \<and>
        NativeCameraStop.bounds r = Some ''bounds'' \<and>
        NativeCameraStop.paddingTop r = Some 5 \<and> NativeCameraStop.paddingRight r = Some 0 \<and>
        NativeCameraStop.paddingBottom r = Some 0 \<and> NativeCameraStop.paddingLeft r = Some 7)"
  using C10_partial_bounds [where g = sampleGeo and ign = False
      and props = "noProps\<lparr>defaultSettings := Some (emptyStop\<lparr>bounds :=
             Some \<lparr> paddingLeft = None, paddingRight = None, paddingTop = None,
                    paddingBottom = None, ne = Some [1, 2], sw = Some [3, 4] \<rparr>\<rparr>)\<rparr>"
      and stop = "emptyStop\<lparr>padding := Some \<lparr> paddingLeft = None, paddingRight = None,
                                        paddingTop = Some 5, paddingBottom = None \<rparr>,
             bounds := Some \<lparr> paddingLeft = Some 7, paddingRight = None, paddingTop = Some 9,
                              paddingBottom = None, ne = None, sw = Some [10, 30] \<rparr>\<rparr>"
      and b = "\<lparr> paddingLeft = Some 7, paddingRight = None, paddingTop = Some 9,
                              paddingBottom = None, ne = None, sw = Some [10, 30] \<rparr>"]
  by (auto simp: sample_simps nativeDefaultStop_def spread_def)

end
